theory Spec2Isabelle
  imports Main "HOL-Library.Word"
begin

unbundle bit_operations_syntax

section \<open>wpanctl: the add-eidcache command (src/wpanctl/tool-cmd-add-eidcache.c)\<close>

text \<open>
  \<^verbatim>\<open>tool_cmd_add_eidcache(argc, argv)\<close> parses three positional arguments
  (EID, MLIID, RLOC16), builds one D-Bus method call and sends it. Everything the function
  obtains from outside this file is an input of the model: the results of
  \<^verbatim>\<open>getopt_long\<close>, the global \<^verbatim>\<open>gInterfaceName\<close>, the two
  \<^verbatim>\<open>dbus_bus_get\<close> attempts, \<^verbatim>\<open>lookup_dbus_name_from_interface\<close>,
  \<^verbatim>\<open>inet_pton\<close>, \<^verbatim>\<open>parse_string_into_data\<close> (string-utils, not in this
  file), the indeterminate contents of the two stack buffers that are not cleared, and
  the reply to the call. What the function does is its return value, the lines it
  prints and the method calls it sends.
\<close>

type_synonym byte = "8 word"

subsection \<open>Constants of headers that are not part of the sources\<close>

text \<open>
  \<^verbatim>\<open>ERRORCODE_*\<close> (wpanctl-utils.h) and the D-Bus names (wpan-dbus-v1.h) are macros
  of headers outside the sources; the model takes them as parameters.
\<close>

record macros =
  ERRORCODE_HELP :: int
  ERRORCODE_BADARG :: int
  ERRORCODE_TIMEOUT :: int
  WPANTUND_DBUS_PATH :: string
  WPANTUND_DBUS_APIv1_INTERFACE :: string
  WPANTUND_IF_CMD_EIDCACHE_ADD :: string

subsection \<open>The D-Bus message\<close>

text \<open>
  \<^verbatim>\<open>dbus_message_append_args\<close> is called with \<^verbatim>\<open>DBUS_TYPE_ARRAY, DBUS_TYPE_BYTE\<close>
  (a pointer and an element count) and with \<^verbatim>\<open>DBUS_TYPE_UINT16\<close>.
\<close>

datatype dbus_arg = ByteArray "byte list" | UInt16 "16 word"

record dbus_message =
  msg_destination :: string
  msg_path :: string
  msg_interface :: string
  msg_method :: string
  msg_args :: "dbus_arg list"

subsection \<open>What the function prints\<close>

text \<open>One constructor per \<^verbatim>\<open>fprintf\<close> format of the function, with its arguments.\<close>

datatype printed_line =
    HelpText
  | UnexpectedExtraArgument "string option" "string option"
  | NoInterfaceSet "string option"
  | RequireFailed string
  | BadAddressErrno string
  | BadAddress string
  | BadAddressData string
  | BadIid string
  | BadRloc string
  | SendError "string option" string
  | EidCacheAdded
  | FailedWithError "string option" int

subsection \<open>The environment of one invocation\<close>

record env =
  getopt_returns :: "int list"
  optind_after :: nat
  gInterfaceName :: string
  bus_starter :: bool
  bus_system :: bool
  error_message :: string
  lookup_dbus_name :: "int \<times> string"
  inet_pton6 :: "string \<Rightarrow> int \<times> byte list"
  parse_string_into_data :: "nat \<Rightarrow> string \<Rightarrow> int \<times> byte list"
  iid_stack :: "byte list"
  rloc_stack :: "byte list"
  send_with_reply :: "dbus_message \<Rightarrow> int option option"

text \<open>
  \<^item> \<open>getopt_returns\<close>: the values \<^verbatim>\<open>getopt_long\<close> returns on its successive
    calls (a missing \<open>-1\<close> at the end is implied); \<open>optind_after\<close>: \<^verbatim>\<open>optind\<close>
    when the loop is left.
  \<^item> \<open>bus_starter\<close>, \<open>bus_system\<close>: whether \<^verbatim>\<open>dbus_bus_get\<close> returns a
    connection for \<^verbatim>\<open>DBUS_BUS_STARTER\<close> and for \<^verbatim>\<open>DBUS_BUS_SYSTEM\<close>.
  \<^item> \<open>lookup_dbus_name\<close>: the return value of
    \<^verbatim>\<open>lookup_dbus_name_from_interface\<close> and the name it wrote.
  \<^item> \<open>inet_pton6 s\<close> and \<open>parse_string_into_data cap s\<close>: the return value and the
    bytes written to the start of the destination buffer.
  \<^item> \<open>iid_stack\<close>, \<open>rloc_stack\<close>: what \<^verbatim>\<open>iid_bytes[8]\<close> and
    \<^verbatim>\<open>rloc_bytes[2]\<close> hold before the parser writes to them (the function clears
    only \<^verbatim>\<open>addr_bytes\<close>).
  \<^item> \<open>send_with_reply m\<close>: \<open>None\<close> when
    \<^verbatim>\<open>dbus_connection_send_with_reply_and_block\<close> returns no reply;
    \<open>Some (Some r)\<close> when \<^verbatim>\<open>dbus_message_get_args\<close> stores the reply's INT32
    \<open>r\<close> into \<^verbatim>\<open>ret\<close>; \<open>Some None\<close> when it stores nothing.
\<close>

record outcome =
  ret :: int
  printed :: "printed_line list"
  calls :: "dbus_message list"

subsection \<open>Helpers\<close>

text \<open>\<^verbatim>\<open>argv[i]\<close>; beyond \<^verbatim>\<open>argc\<close> there is no string.\<close>

definition arg_at :: "string list \<Rightarrow> nat \<Rightarrow> string option" where
  "arg_at argv i = (if i < length argv then Some (argv ! i) else None)"

text \<open>A C array of \<open>cap\<close> bytes with the given initial contents.\<close>

definition c_array :: "nat \<Rightarrow> byte list \<Rightarrow> byte list" where
  "c_array cap init = take cap (init @ replicate cap 0)"

text \<open>The array after a callee wrote \<open>written\<close> to its start; the rest is unchanged.\<close>

definition store_bytes :: "byte list \<Rightarrow> byte list \<Rightarrow> byte list" where
  "store_bytes written buf = take (length buf) (written @ drop (length written) buf)"

text \<open>
  The option loop (lines 59-78): \<open>True\<close> when \<^verbatim>\<open>getopt_long\<close> returned
  \<^verbatim>\<open>'h'\<close> (104) before it returned \<open>-1\<close>; every other value falls through the
  \<^verbatim>\<open>switch\<close> and the loop goes on.
\<close>

fun getopt_loop :: "int list \<Rightarrow> bool" where
  "getopt_loop [] = False"
| "getopt_loop (c # cs) =
     (if c = -1 then False else if c = 104 then True else getopt_loop cs)"

text \<open>
  Lines 133-176. The address is read with \<^verbatim>\<open>inet_pton\<close> when it holds a colon,
  with \<^verbatim>\<open>parse_string_into_data\<close> otherwise, into 16 zeroed bytes.
\<close>

definition parse_address :: "env \<Rightarrow> string \<Rightarrow> printed_line + byte list" where
  "parse_address E address =
     (let addr_bytes = c_array 16 [] in
      if CHR '':'' \<in> set address then
        (let (bits, written) = inet_pton6 E address in
         if bits < 0 then Inl (BadAddressErrno address)
         else if bits = 0 then Inl (BadAddress address)
         else Inr (store_bytes written addr_bytes))
      else
        (let (len, written) = parse_string_into_data E 16 address in
         if len \<le> 0 then Inl (BadAddressData address)
         else Inr (store_bytes written addr_bytes)))"

text \<open>Lines 177-195.\<close>

definition parse_iid :: "env \<Rightarrow> string \<Rightarrow> printed_line + byte list" where
  "parse_iid E iid =
     (let iid_bytes = c_array 8 (iid_stack E);
          (len, written) = parse_string_into_data E 8 iid in
      if len \<le> 0 then Inl (BadIid iid)
      else Inr (store_bytes written iid_bytes))"

text \<open>
  Line 210: \<^verbatim>\<open>rloc16 = rloc_bytes[0] << 8 | rloc_bytes[1]\<close>. Both bytes are promoted
  to \<^verbatim>\<open>int\<close> (32 bits), and the result is converted to \<^verbatim>\<open>uint16_t\<close>.
\<close>

definition rloc16_of :: "byte list \<Rightarrow> 16 word" where
  "rloc16_of rloc_bytes =
     ucast (push_bit 8 (ucast (rloc_bytes ! 0) :: 32 word) OR (ucast (rloc_bytes ! 1) :: 32 word))"

text \<open>Lines 197-208: the two bytes of the locator buffer after parsing.\<close>

definition parse_rloc :: "env \<Rightarrow> string \<Rightarrow> printed_line + byte list" where
  "parse_rloc E rloc =
     (let rloc_bytes = c_array 2 (rloc_stack E);
          (len, written) = parse_string_into_data E 2 rloc in
      if len \<le> 0 then Inl (BadRloc rloc)
      else Inr (store_bytes written rloc_bytes))"

subsection \<open>The function\<close>

text \<open>
  Lines 109-243, entered with a connection: \<^verbatim>\<open>ret\<close> is assigned the result of
  \<^verbatim>\<open>lookup_dbus_name_from_interface\<close>; the three arguments are parsed and appended
  in turn, each failure printing its line and jumping to \<^verbatim>\<open>bail\<close> without an
  assignment to \<^verbatim>\<open>ret\<close>; then the message is sent.
\<close>

definition send_eidcache ::
  "macros \<Rightarrow> env \<Rightarrow> string option \<Rightarrow> string \<Rightarrow> string \<Rightarrow> string \<Rightarrow> outcome" where
  "send_eidcache K E argv0 address iid rloc =
     (let (r, interface_dbus_name) = lookup_dbus_name E in
      if r \<noteq> 0 then \<lparr>ret = r, printed = [], calls = []\<rparr>
      else
        let path = WPANTUND_DBUS_PATH K @ ''/'' @ gInterfaceName E;
            message = \<lparr>msg_destination = interface_dbus_name, msg_path = path,
                       msg_interface = WPANTUND_DBUS_APIv1_INTERFACE K,
                       msg_method = WPANTUND_IF_CMD_EIDCACHE_ADD K, msg_args = []\<rparr>
        in
        case parse_address E address of
          Inl line \<Rightarrow> \<lparr>ret = r, printed = [line], calls = []\<rparr>
        | Inr addr_bytes \<Rightarrow>
            let message = message\<lparr>msg_args := msg_args message @ [ByteArray addr_bytes]\<rparr> in
            (case parse_iid E iid of
               Inl line \<Rightarrow> \<lparr>ret = r, printed = [line], calls = []\<rparr>
             | Inr iid_bytes \<Rightarrow>
                 let message = message\<lparr>msg_args := msg_args message @ [ByteArray iid_bytes]\<rparr> in
                 (case parse_rloc E rloc of
                    Inl line \<Rightarrow> \<lparr>ret = r, printed = [line], calls = []\<rparr>
                  | Inr rloc_bytes \<Rightarrow>
                      let rloc16 = rloc16_of rloc_bytes;
                          message = message\<lparr>msg_args := msg_args message @ [UInt16 rloc16]\<rparr>
                      in
                      (case send_with_reply E message of
                         None \<Rightarrow>
                           \<lparr>ret = ERRORCODE_TIMEOUT K,
                            printed = [SendError argv0 (error_message E)],
                            calls = [message]\<rparr>
                       | Some reply \<Rightarrow>
                           let ret' = (case reply of None \<Rightarrow> r | Some v \<Rightarrow> v) in
                           \<lparr>ret = ret',
                            printed = [if ret' = 0 then EidCacheAdded
                                       else FailedWithError argv0 ret'],
                            calls = [message]\<rparr>))))"

text \<open>
  Lines 42-107 and the \<^verbatim>\<open>bail\<close> label: \<^verbatim>\<open>ret\<close> starts at 0; help, a
  missing argument and an unset interface name set an error code; a missing connection
  leaves through \<^verbatim>\<open>require_string\<close>, which prints the error's message and
  assigns nothing.
\<close>

definition tool_cmd_add_eidcache :: "macros \<Rightarrow> env \<Rightarrow> string list \<Rightarrow> outcome" where
  "tool_cmd_add_eidcache K E argv =
     (let argc = length argv in
      if getopt_loop (getopt_returns E) then
        \<lparr>ret = ERRORCODE_HELP K, printed = [HelpText], calls = []\<rparr>
      else
        let optind = optind_after E in
        if optind + 3 > argc then
          \<lparr>ret = ERRORCODE_BADARG K,
           printed = [UnexpectedExtraArgument (arg_at argv 0) (arg_at argv optind)],
           calls = []\<rparr>
        else
          let address = argv ! optind;
              iid = argv ! (optind + 1);
              rloc = argv ! (optind + 2)
          in
          if gInterfaceName E = [] then
            \<lparr>ret = ERRORCODE_BADARG K, printed = [NoInterfaceSet (arg_at argv 0)], calls = []\<rparr>
          else if \<not> (bus_starter E \<or> bus_system E) then
            \<lparr>ret = 0, printed = [RequireFailed (error_message E)], calls = []\<rparr>
          else send_eidcache K E (arg_at argv 0) address iid rloc)"

subsection \<open>The conditions the statements below speak about\<close>

text \<open>
  The function reaches the parsing of its arguments: no help option, three positional
  arguments, an interface name, a connection, and a D-Bus name found for the interface.
\<close>

definition parsing_reached :: "env \<Rightarrow> string list \<Rightarrow> bool" where
  "parsing_reached E argv \<longleftrightarrow>
     \<not> getopt_loop (getopt_returns E) \<and> optind_after E + 3 \<le> length argv \<and>
     gInterfaceName E \<noteq> [] \<and> (bus_starter E \<or> bus_system E) \<and>
     fst (lookup_dbus_name E) = 0"

text \<open>The function's own tests of a parse (lines 147 and 154, 163, 185, 205).\<close>

definition address_parsed :: "env \<Rightarrow> string \<Rightarrow> bool" where
  "address_parsed E address \<longleftrightarrow>
     (if CHR '':'' \<in> set address then 0 < fst (inet_pton6 E address)
      else 0 < fst (parse_string_into_data E 16 address))"

definition iid_parsed :: "env \<Rightarrow> string \<Rightarrow> bool" where
  "iid_parsed E iid \<longleftrightarrow> 0 < fst (parse_string_into_data E 8 iid)"

definition rloc_parsed :: "env \<Rightarrow> string \<Rightarrow> bool" where
  "rloc_parsed E rloc \<longleftrightarrow> 0 < fst (parse_string_into_data E 2 rloc)"

text \<open>The three positional arguments of an invocation.\<close>

definition address_arg :: "env \<Rightarrow> string list \<Rightarrow> string" where
  "address_arg E argv = argv ! optind_after E"

definition iid_arg :: "env \<Rightarrow> string list \<Rightarrow> string" where
  "iid_arg E argv = argv ! (optind_after E + 1)"

definition rloc_arg :: "env \<Rightarrow> string list \<Rightarrow> string" where
  "rloc_arg E argv = argv ! (optind_after E + 2)"

text \<open>The locator buffer \<^verbatim>\<open>rloc_bytes[2]\<close> after the parser has written to it.\<close>

definition rloc_buffer :: "env \<Rightarrow> string list \<Rightarrow> byte list" where
  "rloc_buffer E argv =
     store_bytes (snd (parse_string_into_data E 2 (rloc_arg E argv))) (c_array 2 (rloc_stack E))"

text \<open>
  The bytes written for the address: by \<^verbatim>\<open>inet_pton\<close> when the address holds a
  colon, by \<^verbatim>\<open>parse_string_into_data\<close> otherwise (lines 143-167).
\<close>

definition address_written :: "env \<Rightarrow> string \<Rightarrow> byte list" where
  "address_written E address =
     snd (if CHR '':'' \<in> set address then inet_pton6 E address
          else parse_string_into_data E 16 address)"

text \<open>
  The address buffer \<^verbatim>\<open>addr_bytes[16]\<close>, cleared by \<^verbatim>\<open>memset\<close>, and the
  identifier buffer \<^verbatim>\<open>iid_bytes[8]\<close>, not cleared, after the parser has written
  to them.
\<close>

definition address_buffer :: "env \<Rightarrow> string list \<Rightarrow> byte list" where
  "address_buffer E argv =
     store_bytes (address_written E (address_arg E argv)) (c_array 16 [])"

definition iid_buffer :: "env \<Rightarrow> string list \<Rightarrow> byte list" where
  "iid_buffer E argv =
     store_bytes (snd (parse_string_into_data E 8 (iid_arg E argv))) (c_array 8 (iid_stack E))"

section \<open>The Scan Task (src/ncp-spinel/SpinelNCPTaskScan.h)\<close>

text \<open>
  The header declares the class \<^verbatim>\<open>SpinelNCPTaskScan\<close>: a constructor with the
  parameters \<^verbatim>\<open>(SpinelNCPInstance* instance, CallbackWithStatusArg1 cb,
  uint32_t channel_mask)\<close>, the methods \<^verbatim>\<open>vprocess_event\<close> and \<^verbatim>\<open>finish\<close>,
  and the private fields \<^verbatim>\<open>uint8_t mChannelMaskData[32]\<close>,
  \<^verbatim>\<open>uint8_t mChannelMaskLen\<close> and \<^verbatim>\<open>uint16_t mChannelDelayPeriod\<close>. The
  parameter list and the fields below are the header's. The bodies of the three
  functions, the base class \<^verbatim>\<open>SpinelNCPTask\<close> and \<^verbatim>\<open>SpinelNCPInstance\<close> are
  not part of the sources; what they do is modelled from the specification, and each
  such definition says so.
\<close>

subsection \<open>Data\<close>

text \<open>
  Modelled from the spec: the status codes a Task resolves with (sections 6 and 7); the
  header that numbers them is missing (\<^verbatim>\<open>finish\<close> takes an \<^verbatim>\<open>int\<close>).
\<close>

datatype status_code = Success | Timeout | Cancelled | ProtocolError

text \<open>
  Modelled from the spec: the error of a rejected construction (section 7); the
  constructor's body is missing.
\<close>

datatype construct_error = BadArgument

text \<open>
  Modelled from the spec: the lifecycle states of a Task (section 3); the base class
  \<^verbatim>\<open>SpinelNCPTask\<close> is missing.
\<close>

datatype lifecycle = Pending | Active | Finished

text \<open>
  Modelled from the spec: a scan result is an opaque record, and the Result Value is a
  closed union (sections 3 and 9); \<^verbatim>\<open>finish\<close> takes a \<^verbatim>\<open>boost::any\<close>,
  whose contents the header does not show.
\<close>

type_synonym scan_record = "byte list"

datatype result_value =
    Empty
  | StatusOnly status_code
  | RecordList "scan_record list"
  | Bytes "byte list"

text \<open>
  The instance pointer and the callback are handles: the model never calls through them.
\<close>

type_synonym instance_ref = nat
type_synonym callback = nat

text \<open>
  Modelled from the spec: the fields of the missing base class (instance, callback,
  lifecycle state), the accumulated result list, and the status and result that
  \<^verbatim>\<open>finish\<close> records (sections 3 and 4.1). The three fields
  \<open>mChannelMaskData\<close>, \<open>mChannelMaskLen\<close> and \<open>mChannelDelayPeriod\<close> are the
  header's (lines 44-46); the buffer is a list that construction fills with 32 bytes.
\<close>

record scan_task =
  mInstance :: instance_ref
  mCB :: callback
  state :: lifecycle
  mChannelMaskData :: "byte list"
  mChannelMaskLen :: byte
  mChannelDelayPeriod :: "16 word"
  accumulated :: "scan_record list"
  resolved :: "(status_code \<times> result_value) option"

subsection \<open>Construction\<close>

text \<open>
  Modelled from the spec: the encoding of the channel mask, whose code (the constructor's
  body) is missing. Section 3: a bitmask, one bit per channel; channel \<open>n\<close> is bit
  \<open>n mod 8\<close> of byte \<open>n div 8\<close>. The constructor's argument is a
  \<^verbatim>\<open>uint32_t\<close> (header, line 38), which fills four bytes.
\<close>

definition channel_mask_bytes :: "32 word \<Rightarrow> byte list" where
  "channel_mask_bytes channel_mask = map (\<lambda>k. ucast (drop_bit (8 * k) channel_mask)) [0..<4]"

text \<open>
  Modelled from the spec: storing an encoded mask in the fixed buffer of 32 bytes with
  its length (section 4.2: an encoded length beyond 32 bytes is a constructor-time
  error); the constructor's body is missing.
\<close>

definition store_channel_mask :: "byte list \<Rightarrow> construct_error + byte list \<times> byte" where
  "store_channel_mask enc =
     (if 32 < length enc then Inl BadArgument
      else Inr (enc @ replicate (32 - length enc) 0, of_nat (length enc)))"

text \<open>
  Modelled from the spec: the body of the constructor, which is missing: an empty mask
  and an over-long encoding are rejected with \<open>BadArgument\<close> (sections 4.2 and 7); a
  new Task is \<open>Pending\<close> with no result accumulated (section 3).
  The parameters are the header's three (lines 35-39): \<open>instance\<close>, \<open>cb\<close> and
  \<open>channel_mask\<close>. The first argument of the model, \<open>scan_period\<close>, is not a
  parameter of the constructor: it stands for the value that the constructor's body
  stores in \<^verbatim>\<open>mChannelDelayPeriod\<close>, which the header does not show.
\<close>

definition SpinelNCPTaskScan_new ::
  "16 word \<Rightarrow> instance_ref \<Rightarrow> callback \<Rightarrow> 32 word \<Rightarrow> construct_error + scan_task" where
  "SpinelNCPTaskScan_new scan_period instance cb channel_mask =
     (if channel_mask = 0 then Inl BadArgument
      else
        case store_channel_mask (channel_mask_bytes channel_mask) of
          Inl e \<Rightarrow> Inl e
        | Inr (data, len) \<Rightarrow>
            Inr \<lparr>mInstance = instance, mCB = cb, state = Pending,
                 mChannelMaskData = data, mChannelMaskLen = len,
                 mChannelDelayPeriod = scan_period,
                 accumulated = [], resolved = None\<rparr>)"

subsection \<open>Frames and events\<close>

text \<open>
  Modelled from the spec: the outbound frames of a scan (section 4.2, Init): two property
  writes and a command; the Spinel headers that number them are missing.
\<close>

datatype frame = SetChannelMask "byte list" | SetScanPeriod "16 word" | BeginScan

text \<open>
  Modelled from the spec: the payloads a Scan Task tells apart (section 4.2): a status
  that signals scan-complete, a property value that reports the scan state, an inserted
  item that carries a scan result; any other payload is kept with its number and bytes.
\<close>

datatype status_signal = ScanComplete | OtherStatus nat

datatype scan_state = ScanIdle | ScanBusy

datatype property_value = ScanState scan_state | OtherValue nat "byte list"

datatype property_item = ScanResult scan_record | OtherItem nat "byte list"

text \<open>
  Modelled from the spec: the event kinds of section 4.1 (\<^verbatim>\<open>vprocess_event\<close> takes
  an \<^verbatim>\<open>int\<close> and a \<^verbatim>\<open>va_list\<close>), and the signal a Task returns to the
  Instance: it stays active, it wants a frame sent, or it has finished.
\<close>

datatype event =
    InboundStatusFrame status_signal
  | InboundPropertyValue property_value
  | InboundPropertyInserted property_item
  | TransportReset
  | TimeoutFired
  | GenericRawFrame "byte list"

datatype signal = StillActive | SendFrame frame | TaskFinished

subsection \<open>The state machine\<close>

text \<open>
  Modelled from the spec: \<^verbatim>\<open>finish\<close> (its body is missing). Section 4.1: it moves
  the Task to \<open>Finished\<close> and records status and result, behind a check of the
  lifecycle state. \<open>None\<close>: the Task was \<open>Finished\<close> already and the call does not
  go through; how that is reported is left open by the spec (section 9) and is not
  modelled.
\<close>

definition finish :: "status_code \<Rightarrow> result_value \<Rightarrow> scan_task \<Rightarrow> scan_task option" where
  "finish status res t =
     (if state t = Finished then None
      else Some (t\<lparr>state := Finished, resolved := Some (status, res)\<rparr>))"

text \<open>
  Modelled from the spec: Init (section 4.2): the three frames a Scan Task hands to the
  Instance on activation, in this order. The mask frame carries the encoded part of the
  buffer.
\<close>

definition scan_init_frames :: "scan_task \<Rightarrow> frame list" where
  "scan_init_frames t =
     [SetChannelMask (take (unat (mChannelMaskLen t)) (mChannelMaskData t)),
      SetScanPeriod (mChannelDelayPeriod t),
      BeginScan]"

text \<open>
  Modelled from the spec: activation (section 3): the Instance promotes the Task, which
  becomes \<open>Active\<close> and runs Init.
\<close>

definition activate :: "scan_task \<Rightarrow> scan_task \<times> frame list" where
  "activate t = (t\<lparr>state := Active\<rparr>, scan_init_frames t)"

text \<open>
  Modelled from the spec: what \<^verbatim>\<open>vprocess_event\<close> (its body is missing) does with
  an event, sections 4.1, 4.2 and 5. A scan result is appended; scan-complete, or the
  scan state back to idle, finishes with success; the timeout finishes with
  \<open>Timeout\<close>, and the transport reset with \<open>Cancelled\<close>, each with the records
  accumulated so far; every other event is ignored.
\<close>

fun on_event :: "event \<Rightarrow> scan_task \<Rightarrow> (signal \<times> scan_task) option" where
  "on_event (InboundPropertyInserted (ScanResult r)) t =
     Some (StillActive, t\<lparr>accumulated := accumulated t @ [r]\<rparr>)"
| "on_event (InboundStatusFrame ScanComplete) t =
     map_option (Pair TaskFinished) (finish Success (RecordList (accumulated t)) t)"
| "on_event (InboundPropertyValue (ScanState ScanIdle)) t =
     map_option (Pair TaskFinished) (finish Success (RecordList (accumulated t)) t)"
| "on_event TimeoutFired t =
     map_option (Pair TaskFinished) (finish Timeout (RecordList (accumulated t)) t)"
| "on_event TransportReset t =
     map_option (Pair TaskFinished) (finish Cancelled (RecordList (accumulated t)) t)"
| "on_event _ t = Some (StillActive, t)"

text \<open>
  Modelled from the spec: \<^verbatim>\<open>vprocess_event\<close> is called for an \<open>Active\<close> Task
  only (section 4.1); \<open>None\<close> otherwise.
\<close>

definition vprocess_event :: "event \<Rightarrow> scan_task \<Rightarrow> (signal \<times> scan_task) option" where
  "vprocess_event ev t = (if state t \<noteq> Active then None else on_event ev t)"

text \<open>The frame a signal asks the Instance to send.\<close>

fun signal_frames :: "signal \<Rightarrow> frame list" where
  "signal_frames (SendFrame f) = [f]"
| "signal_frames _ = []"

text \<open>
  Modelled from the spec: the Instance hands the events to the Task in the order of
  their arrival and sends the frames the Task asks for in the order asked (section 5).
  The result is the Task after the events and the frames sent for them.
\<close>

fun run_events :: "event list \<Rightarrow> scan_task \<Rightarrow> (scan_task \<times> frame list) option" where
  "run_events [] t = Some (t, [])"
| "run_events (ev # evs) t =
     (case vprocess_event ev t of
        None \<Rightarrow> None
      | Some (s, t') \<Rightarrow>
          map_option (\<lambda>(t'', frames). (t'', signal_frames s @ frames)) (run_events evs t'))"

text \<open>
  The events that end a scan; an event sequence during which the scan goes on (none of
  its events ends it); the events that carry a scan result; the records of an event
  sequence.
\<close>

fun terminal :: "event \<Rightarrow> bool" where
  "terminal (InboundStatusFrame ScanComplete) = True"
| "terminal (InboundPropertyValue (ScanState ScanIdle)) = True"
| "terminal TimeoutFired = True"
| "terminal TransportReset = True"
| "terminal _ = False"

definition still_scanning :: "event list \<Rightarrow> bool" where
  "still_scanning evs \<longleftrightarrow> list_all (\<lambda>ev. \<not> terminal ev) evs"

fun is_scan_result :: "event \<Rightarrow> bool" where
  "is_scan_result (InboundPropertyInserted (ScanResult r)) = True"
| "is_scan_result _ = False"

fun scan_results :: "event list \<Rightarrow> scan_record list" where
  "scan_results [] = []"
| "scan_results (InboundPropertyInserted (ScanResult r) # evs) = r # scan_results evs"
| "scan_results (_ # evs) = scan_results evs"

subsection \<open>The Instance's queue\<close>

text \<open>
  Modelled from the spec: the part of the NCP Instance that takes a Task in (section 3):
  the active slot, the FIFO queue of pending Tasks, and the frames handed to the
  transport so far. \<^verbatim>\<open>SpinelNCPInstance\<close> is missing.
\<close>

record ncp_instance =
  active_task :: "scan_task option"
  pending_tasks :: "scan_task list"
  outbound :: "frame list"

text \<open>
  Modelled from the spec: \<open>submit\<close> (section 4.3) appends the Task to the queue and,
  when no Task is active, activates the head of the queue at once; the frames of its
  Init go out through the Instance.
\<close>

definition submit :: "scan_task \<Rightarrow> ncp_instance \<Rightarrow> ncp_instance" where
  "submit t I =
     (let I' = I\<lparr>pending_tasks := pending_tasks I @ [t]\<rparr> in
      case active_task I' of
        Some a \<Rightarrow> I'
      | None \<Rightarrow>
          (case pending_tasks I' of
             [] \<Rightarrow> I'
           | h # rest \<Rightarrow>
               let (h', frames) = activate h in
               I'\<lparr>active_task := Some h', pending_tasks := rest,
                  outbound := outbound I' @ frames\<rparr>))"

text \<open>
  Modelled from the spec: the Task factory boundary (sections 6 and 7): the Task is
  constructed, and only a constructed Task is submitted.
\<close>

definition start_scan ::
  "16 word \<Rightarrow> instance_ref \<Rightarrow> callback \<Rightarrow> 32 word \<Rightarrow> ncp_instance \<Rightarrow>
     (construct_error + unit) \<times> ncp_instance" where
  "start_scan scan_period instance cb channel_mask I =
     (case SpinelNCPTaskScan_new scan_period instance cb channel_mask of
        Inl e \<Rightarrow> (Inl e, I)
      | Inr t \<Rightarrow> (Inr (), submit t I))"

section \<open>Example inputs\<close>

text \<open>
  An invocation \<^verbatim>\<open>add-eidcache fd000db800000000 0123456789abcdef a401\<close> on interface
  \<^verbatim>\<open>wpan0\<close>, with a parser that reads these three hexadecimal strings and rejects
  every other string, and a daemon that answers 0.
\<close>

definition example_macros :: macros where
  "example_macros =
     \<lparr>ERRORCODE_HELP = 1, ERRORCODE_BADARG = 2, ERRORCODE_TIMEOUT = 11,
      WPANTUND_DBUS_PATH = ''/com/nestlabs/WPANTunnelDriver'',
      WPANTUND_DBUS_APIv1_INTERFACE = ''com.nestlabs.WPANTunnelDriver'',
      WPANTUND_IF_CMD_EIDCACHE_ADD = ''EidCacheAdd''\<rparr>"

definition example_parser :: "nat \<Rightarrow> string \<Rightarrow> int \<times> byte list" where
  "example_parser cap s =
     (if s = ''fd000db800000000'' then (8, [0xfd, 0x00, 0x0d, 0xb8, 0, 0, 0, 0])
      else if s = ''0123456789abcdef'' then (8, [0x01, 0x23, 0x45, 0x67, 0x89, 0xab, 0xcd, 0xef])
      else if s = ''a401'' then (2, [0xa4, 0x01])
      else (0, []))"

definition example_env :: env where
  "example_env =
     \<lparr>getopt_returns = [], optind_after = 1, gInterfaceName = ''wpan0'',
      bus_starter = True, bus_system = False, error_message = [],
      lookup_dbus_name = (0, ''com.nestlabs.WPANTunnelDriver.wpan0''),
      inet_pton6 = (\<lambda>s. (0, [])), parse_string_into_data = example_parser,
      iid_stack = [], rloc_stack = [],
      send_with_reply = (\<lambda>m. Some (Some 0))\<rparr>"

definition example_argv :: "string list" where
  "example_argv = [''add-eidcache'', ''fd000db800000000'', ''0123456789abcdef'', ''a401'']"

definition example_argv_bad_iid :: "string list" where
  "example_argv_bad_iid = [''add-eidcache'', ''fd000db800000000'', ''zz'', ''a401'']"

text \<open>
  The same invocation with the address written as an IPv6 address,
  \<^verbatim>\<open>add-eidcache fd00::1 0123456789abcdef a401\<close>, which \<^verbatim>\<open>inet_pton\<close> reads.
\<close>

definition example_env_inet :: env where
  "example_env_inet =
     example_env\<lparr>inet_pton6 :=
       (\<lambda>s. if s = ''fd00::1''
            then (1, [0xfd, 0, 0, 0, 0, 0, 0, 0, 0, 0, 0, 0, 0, 0, 0, 0x01])
            else (0, []))\<rparr>"

definition example_argv_inet :: "string list" where
  "example_argv_inet = [''add-eidcache'', ''fd00::1'', ''0123456789abcdef'', ''a401'']"

text \<open>
  The scan of the spec's section 8: channels 11, 15 and 20 (the mask \<open>0x108800\<close>), a
  period of 120 ms; the Task as constructed, and an event sequence with two scan results
  and unrelated traffic between them.
\<close>

definition example_task :: scan_task where
  "example_task =
     \<lparr>mInstance = 0, mCB = 7, state = Pending,
      mChannelMaskData = [0x00, 0x88, 0x10, 0x00] @ replicate 28 0,
      mChannelMaskLen = 4, mChannelDelayPeriod = 120,
      accumulated = [], resolved = None\<rparr>"

definition example_events :: "event list" where
  "example_events =
     [InboundPropertyInserted (ScanResult [0x0b, 0xc5]),
      GenericRawFrame [0x80, 0x06],
      InboundPropertyValue (OtherValue 1 []),
      InboundPropertyInserted (ScanResult [0x0f, 0xb0])]"

definition idle_instance :: ncp_instance where
  "idle_instance = \<lparr>active_task = None, pending_tasks = [], outbound = []\<rparr>"

section \<open>Facts about the helpers\<close>

lemma length_c_array: "length (c_array cap init) = cap"
  by (simp add: c_array_def)

lemma length_store_bytes: "length (store_bytes written buf) = length buf"
  by (simp add: store_bytes_def)

lemma parse_address_Inr_length:
  "parse_address E address = Inr bs \<Longrightarrow> length bs = 16"
  by (auto simp: parse_address_def Let_def length_store_bytes length_c_array
      split: prod.splits if_splits)

lemma parse_iid_Inr_length: "parse_iid E iid = Inr bs \<Longrightarrow> length bs = 8"
  by (auto simp: parse_iid_def Let_def length_store_bytes length_c_array
      split: prod.splits if_splits)

lemma parse_rloc_Inr_length: "parse_rloc E rloc = Inr bs \<Longrightarrow> length bs = 2"
  by (auto simp: parse_rloc_def Let_def length_store_bytes length_c_array
      split: prod.splits if_splits)

lemma parse_address_Inr_iff:
  "(\<exists>bs. parse_address E address = Inr bs) \<longleftrightarrow> address_parsed E address"
  by (auto simp: parse_address_def address_parsed_def Let_def split: prod.splits if_splits)

lemma parse_iid_Inr_iff: "(\<exists>bs. parse_iid E iid = Inr bs) \<longleftrightarrow> iid_parsed E iid"
  by (auto simp: parse_iid_def iid_parsed_def Let_def split: prod.splits if_splits)

lemma parse_rloc_Inr_iff: "(\<exists>bs. parse_rloc E rloc = Inr bs) \<longleftrightarrow> rloc_parsed E rloc"
  by (auto simp: parse_rloc_def rloc_parsed_def Let_def split: prod.splits if_splits)

lemma parse_rloc_Inr_buffer:
  "parse_rloc E rloc = Inr bs \<Longrightarrow>
     bs = store_bytes (snd (parse_string_into_data E 2 rloc)) (c_array 2 (rloc_stack E))"
  by (auto simp: parse_rloc_def Let_def split: prod.splits if_splits)

lemma tool_cmd_reached:
  "parsing_reached E argv \<Longrightarrow>
     tool_cmd_add_eidcache K E argv =
       send_eidcache K E (arg_at argv 0) (address_arg E argv) (iid_arg E argv) (rloc_arg E argv)"
  by (simp add: tool_cmd_add_eidcache_def parsing_reached_def Let_def
      address_arg_def iid_arg_def rloc_arg_def)

lemma send_eidcache_calls:
  assumes "fst (lookup_dbus_name E) = 0"
    and "parse_address E address = Inr a"
    and "parse_iid E iid = Inr i"
    and "parse_rloc E rloc = Inr b"
  shows "calls (send_eidcache K E a0 address iid rloc) =
           [\<lparr>msg_destination = snd (lookup_dbus_name E),
             msg_path = WPANTUND_DBUS_PATH K @ ''/'' @ gInterfaceName E,
             msg_interface = WPANTUND_DBUS_APIv1_INTERFACE K,
             msg_method = WPANTUND_IF_CMD_EIDCACHE_ADD K,
             msg_args = [ByteArray a, ByteArray i, UInt16 (rloc16_of b)]\<rparr>]"
  using assms
  by (cases "lookup_dbus_name E")
    (auto simp: send_eidcache_def Let_def split: option.splits)

text \<open>
  The two promoted bytes have no bit in common, so the bitwise OR of line 210 is a sum,
  and the sum is below \<open>2 ^ 16\<close>: the conversion to \<^verbatim>\<open>uint16_t\<close> loses nothing.
\<close>

lemma rloc16_of_unat:
  "unat (rloc16_of bs) = 256 * unat (bs ! 0) + unat (bs ! 1)"
proof -
  let ?h = "ucast (bs ! 0) :: 32 word" and ?l = "ucast (bs ! 1) :: 32 word"
  have bh: "unat (bs ! 0) < 256" and bl: "unat (bs ! 1) < 256"
    using unsigned_less [of "bs ! 0", where 'a = nat] unsigned_less [of "bs ! 1", where 'a = nat]
    by simp_all
  have disj: "push_bit 8 ?h AND ?l = 0"
    by (rule bit_eqI) (auto simp: bit_simps dest: bit_imp_le_length)
  have sum: "push_bit 8 ?h OR ?l = push_bit 8 ?h + ?l"
    using disj by (simp add: disjunctive_add_eq_or)
  have h: "unat ?h = unat (bs ! 0)"
    using bh by (simp add: unsigned_ucast_eq take_bit_nat_eq_self)
  have l: "unat ?l = unat (bs ! 1)"
    using bl by (simp add: unsigned_ucast_eq take_bit_nat_eq_self)
  have "unat (push_bit 8 ?h) = take_bit 32 (push_bit 8 (unat (bs ! 0)))"
    by (simp only: unsigned_push_bit_eq h len_bit0 len_of_numeral_defs) simp
  also have "\<dots> = 256 * unat (bs ! 0)"
    using bh by (simp add: take_bit_nat_eq_self push_bit_eq_mult)
  finally have ph: "unat (push_bit 8 ?h) = 256 * unat (bs ! 0)" .
  have "unat (push_bit 8 ?h + ?l) = 256 * unat (bs ! 0) + unat (bs ! 1)"
    using bh bl ph l by (simp add: unat_word_ariths)
  then have u32: "unat (push_bit 8 ?h OR ?l) = 256 * unat (bs ! 0) + unat (bs ! 1)"
    using sum by simp
  have "unat (ucast (push_bit 8 ?h OR ?l) :: 16 word) = take_bit 16 (unat (push_bit 8 ?h OR ?l))"
    by (simp add: unsigned_ucast_eq)
  then show ?thesis
    using u32 bh bl by (simp add: rloc16_of_def take_bit_nat_eq_self)
qed

text \<open>The example invocation reaches the parsing, and its three arguments parse.\<close>

lemma example_reached: "parsing_reached example_env example_argv"
  by (simp add: parsing_reached_def example_env_def example_argv_def)

lemma example_address_parsed: "address_parsed example_env (address_arg example_env example_argv)"
  by (simp add: address_parsed_def address_arg_def example_env_def example_argv_def
      example_parser_def)

lemma example_iid_parsed: "iid_parsed example_env (iid_arg example_env example_argv)"
  by (simp add: iid_parsed_def iid_arg_def example_env_def example_argv_def
      example_parser_def)

lemma example_rloc_parsed: "rloc_parsed example_env (rloc_arg example_env example_argv)"
  by (simp add: rloc_parsed_def rloc_arg_def example_env_def example_argv_def
      example_parser_def)

lemma example_bad_iid_reached: "parsing_reached example_env example_argv_bad_iid"
  by (simp add: parsing_reached_def example_env_def example_argv_bad_iid_def)

lemma example_bad_iid_not_parsed:
  "\<not> iid_parsed example_env (iid_arg example_env example_argv_bad_iid)"
  by (simp add: iid_parsed_def iid_arg_def example_env_def example_argv_bad_iid_def
      example_parser_def)

lemma replicate_8_zero: "replicate 8 (0 :: byte) = [0, 0, 0, 0, 0, 0, 0, 0]"
  by (simp add: eval_nat_numeral)

lemma example_run:
  "tool_cmd_add_eidcache example_macros example_env example_argv =
     \<lparr>ret = 0, printed = [EidCacheAdded],
      calls = [\<lparr>msg_destination = ''com.nestlabs.WPANTunnelDriver.wpan0'',
                msg_path = ''/com/nestlabs/WPANTunnelDriver/wpan0'',
                msg_interface = ''com.nestlabs.WPANTunnelDriver'',
                msg_method = ''EidCacheAdd'',
                msg_args =
                  [ByteArray [0xfd, 0, 0x0d, 0xb8, 0, 0, 0, 0, 0, 0, 0, 0, 0, 0, 0, 0],
                   ByteArray [0x01, 0x23, 0x45, 0x67, 0x89, 0xab, 0xcd, 0xef],
                   UInt16 0xa401]\<rparr>]\<rparr>"
  by (simp add: tool_cmd_add_eidcache_def send_eidcache_def parse_address_def parse_iid_def
      parse_rloc_def rloc16_of_def c_array_def store_bytes_def arg_at_def Let_def
      example_env_def example_argv_def example_parser_def example_macros_def
      replicate_8_zero)

lemma example_bad_iid_run:
  "tool_cmd_add_eidcache example_macros example_env example_argv_bad_iid =
     \<lparr>ret = 0, printed = [BadIid ''zz''], calls = []\<rparr>"
  by (simp add: tool_cmd_add_eidcache_def send_eidcache_def parse_address_def parse_iid_def
      c_array_def store_bytes_def arg_at_def Let_def
      example_env_def example_argv_bad_iid_def example_parser_def example_macros_def)

section \<open>The add-eidcache command: the claims\<close>

text \<open>
  The buffers a successful parse returns are the buffers as the parser left them.
\<close>

lemma parse_address_Inr_buffer:
  "parse_address E address = Inr bs \<Longrightarrow>
     bs = store_bytes (address_written E address) (c_array 16 [])"
  by (auto simp: parse_address_def address_written_def Let_def split: prod.splits if_splits)

lemma parse_iid_Inr_buffer:
  "parse_iid E iid = Inr bs \<Longrightarrow>
     bs = store_bytes (snd (parse_string_into_data E 8 iid)) (c_array 8 (iid_stack E))"
  by (auto simp: parse_iid_def Let_def split: prod.splits if_splits)

text \<open>
  A cleared array after a write holds the written bytes followed by zeros; an array that
  was not cleared starts with the written bytes.
\<close>

lemma store_bytes_cleared:
  "store_bytes written (c_array cap []) = take cap (written @ replicate cap 0)"
  by (simp add: store_bytes_def c_array_def)

lemma take_store_bytes:
  "take (length written) (store_bytes written buf) = take (length buf) written"
proof (cases "length written \<le> length buf")
  case True
  then show ?thesis by (simp add: store_bytes_def min_absorb1)
next
  case False
  then show ?thesis by (simp add: store_bytes_def min_absorb2)
qed

lemma example_inet_reached: "parsing_reached example_env_inet example_argv_inet"
  by (simp add: parsing_reached_def example_env_inet_def example_env_def example_argv_inet_def)

lemma example_inet_address_parsed:
  "address_parsed example_env_inet (address_arg example_env_inet example_argv_inet)"
  by (simp add: address_parsed_def address_arg_def example_env_inet_def example_env_def
      example_argv_inet_def)

lemma example_inet_iid_parsed:
  "iid_parsed example_env_inet (iid_arg example_env_inet example_argv_inet)"
  by (simp add: iid_parsed_def iid_arg_def example_env_inet_def example_env_def
      example_argv_inet_def example_parser_def)

lemma example_inet_rloc_parsed:
  "rloc_parsed example_env_inet (rloc_arg example_env_inet example_argv_inet)"
  by (simp add: rloc_parsed_def rloc_arg_def example_env_inet_def example_env_def
      example_argv_inet_def example_parser_def)

text \<open>
  C8. When the command reaches the parsing of its three positional arguments and each
  of them parses, it issues exactly one method call, \<^verbatim>\<open>WPANTUND_IF_CMD_EIDCACHE_ADD\<close>
  on the interface's object, and the message carries exactly three arguments in this
  order: the address buffer as an array of 16 bytes (the bytes the parser wrote, then
  zeros), the identifier buffer as an array of 8 bytes (it starts with the bytes the
  parser wrote), and the locator assembled from the locator buffer as an unsigned 16-bit
  value.
\<close>

theorem add_eidcache_one_call_three_args:
  assumes "parsing_reached E argv"
    and "address_parsed E (address_arg E argv)"
    and "iid_parsed E (iid_arg E argv)"
    and "rloc_parsed E (rloc_arg E argv)"
  shows "calls (tool_cmd_add_eidcache K E argv) =
           [\<lparr>msg_destination = snd (lookup_dbus_name E),
             msg_path = WPANTUND_DBUS_PATH K @ ''/'' @ gInterfaceName E,
             msg_interface = WPANTUND_DBUS_APIv1_INTERFACE K,
             msg_method = WPANTUND_IF_CMD_EIDCACHE_ADD K,
             msg_args = [ByteArray (address_buffer E argv), ByteArray (iid_buffer E argv),
                         UInt16 (rloc16_of (rloc_buffer E argv))]\<rparr>] \<and>
         length (address_buffer E argv) = 16 \<and>
         address_buffer E argv =
           take 16 (address_written E (address_arg E argv) @ replicate 16 0) \<and>
         length (iid_buffer E argv) = 8 \<and>
         take (length (snd (parse_string_into_data E 8 (iid_arg E argv)))) (iid_buffer E argv) =
           take 8 (snd (parse_string_into_data E 8 (iid_arg E argv)))"
proof -
  obtain a where a: "parse_address E (address_arg E argv) = Inr a"
    using assms(2) parse_address_Inr_iff by blast
  obtain i where i: "parse_iid E (iid_arg E argv) = Inr i"
    using assms(3) parse_iid_Inr_iff by blast
  obtain b where b: "parse_rloc E (rloc_arg E argv) = Inr b"
    using assms(4) parse_rloc_Inr_iff by blast
  have r0: "fst (lookup_dbus_name E) = 0"
    using assms(1) by (simp add: parsing_reached_def)
  have abuf: "a = address_buffer E argv"
    using parse_address_Inr_buffer [OF a] by (simp add: address_buffer_def)
  have ibuf: "i = iid_buffer E argv"
    using parse_iid_Inr_buffer [OF i] by (simp add: iid_buffer_def)
  have bbuf: "b = rloc_buffer E argv"
    using parse_rloc_Inr_buffer [OF b] by (simp add: rloc_buffer_def)
  have sent: "calls (tool_cmd_add_eidcache K E argv) =
           [\<lparr>msg_destination = snd (lookup_dbus_name E),
             msg_path = WPANTUND_DBUS_PATH K @ ''/'' @ gInterfaceName E,
             msg_interface = WPANTUND_DBUS_APIv1_INTERFACE K,
             msg_method = WPANTUND_IF_CMD_EIDCACHE_ADD K,
             msg_args = [ByteArray (address_buffer E argv), ByteArray (iid_buffer E argv),
                         UInt16 (rloc16_of (rloc_buffer E argv))]\<rparr>]"
    by (simp add: tool_cmd_reached [OF assms(1)] send_eidcache_calls [OF r0 a i b]
        abuf ibuf bbuf)
  have la: "length (address_buffer E argv) = 16"
    using parse_address_Inr_length [OF a] abuf by simp
  have li: "length (iid_buffer E argv) = 8"
    using parse_iid_Inr_length [OF i] ibuf by simp
  have ca: "address_buffer E argv =
      take 16 (address_written E (address_arg E argv) @ replicate 16 0)"
    by (simp add: address_buffer_def store_bytes_cleared)
  have ci: "take (length (snd (parse_string_into_data E 8 (iid_arg E argv)))) (iid_buffer E argv) =
      take 8 (snd (parse_string_into_data E 8 (iid_arg E argv)))"
    using take_store_bytes [of "snd (parse_string_into_data E 8 (iid_arg E argv))"
        "c_array 8 (iid_stack E)"]
    by (simp add: iid_buffer_def length_c_array)
  show ?thesis
    using sent la ca li ci by blast
qed

theorem add_eidcache_one_call_three_args_witness:
  "parsing_reached example_env_inet example_argv_inet \<and>
   address_parsed example_env_inet (address_arg example_env_inet example_argv_inet) \<and>
   iid_parsed example_env_inet (iid_arg example_env_inet example_argv_inet) \<and>
   rloc_parsed example_env_inet (rloc_arg example_env_inet example_argv_inet) \<and>
   calls (tool_cmd_add_eidcache example_macros example_env_inet example_argv_inet) =
     [\<lparr>msg_destination = ''com.nestlabs.WPANTunnelDriver.wpan0'',
       msg_path = ''/com/nestlabs/WPANTunnelDriver/wpan0'',
       msg_interface = ''com.nestlabs.WPANTunnelDriver'',
       msg_method = ''EidCacheAdd'',
       msg_args =
         [ByteArray [0xfd, 0, 0, 0, 0, 0, 0, 0, 0, 0, 0, 0, 0, 0, 0, 0x01],
          ByteArray [0x01, 0x23, 0x45, 0x67, 0x89, 0xab, 0xcd, 0xef],
          UInt16 0xa401]\<rparr>]"
proof -
  have a: "address_buffer example_env_inet example_argv_inet =
      [0xfd, 0, 0, 0, 0, 0, 0, 0, 0, 0, 0, 0, 0, 0, 0, 0x01]"
    by (simp add: address_buffer_def address_written_def address_arg_def store_bytes_def
        c_array_def example_env_inet_def example_env_def example_argv_inet_def)
  have i: "iid_buffer example_env_inet example_argv_inet =
      [0x01, 0x23, 0x45, 0x67, 0x89, 0xab, 0xcd, 0xef]"
    by (simp add: iid_buffer_def iid_arg_def store_bytes_def c_array_def example_parser_def
        example_env_inet_def example_env_def example_argv_inet_def)
  have r: "rloc16_of (rloc_buffer example_env_inet example_argv_inet) = 0xa401"
    by (simp add: rloc_buffer_def rloc_arg_def store_bytes_def c_array_def example_parser_def
        example_env_inet_def example_env_def example_argv_inet_def rloc16_of_def)
  have lk: "snd (lookup_dbus_name example_env_inet) = ''com.nestlabs.WPANTunnelDriver.wpan0''"
    and gi: "gInterfaceName example_env_inet = ''wpan0''"
    by (simp_all add: example_env_inet_def example_env_def)
  have "calls (tool_cmd_add_eidcache example_macros example_env_inet example_argv_inet) =
      [\<lparr>msg_destination = snd (lookup_dbus_name example_env_inet),
        msg_path = WPANTUND_DBUS_PATH example_macros @ ''/'' @ gInterfaceName example_env_inet,
        msg_interface = WPANTUND_DBUS_APIv1_INTERFACE example_macros,
        msg_method = WPANTUND_IF_CMD_EIDCACHE_ADD example_macros,
        msg_args =
          [ByteArray (address_buffer example_env_inet example_argv_inet),
           ByteArray (iid_buffer example_env_inet example_argv_inet),
           UInt16 (rloc16_of (rloc_buffer example_env_inet example_argv_inet))]\<rparr>]"
    using add_eidcache_one_call_three_args [OF example_inet_reached
        example_inet_address_parsed example_inet_iid_parsed example_inet_rloc_parsed,
        of example_macros]
    by blast
  then have "calls (tool_cmd_add_eidcache example_macros example_env_inet example_argv_inet) =
     [\<lparr>msg_destination = ''com.nestlabs.WPANTunnelDriver.wpan0'',
       msg_path = ''/com/nestlabs/WPANTunnelDriver/wpan0'',
       msg_interface = ''com.nestlabs.WPANTunnelDriver'',
       msg_method = ''EidCacheAdd'',
       msg_args =
         [ByteArray [0xfd, 0, 0, 0, 0, 0, 0, 0, 0, 0, 0, 0, 0, 0, 0, 0x01],
          ByteArray [0x01, 0x23, 0x45, 0x67, 0x89, 0xab, 0xcd, 0xef],
          UInt16 0xa401]\<rparr>]"
    by (simp add: a i r lk gi example_macros_def)
  then show ?thesis
    using example_inet_reached example_inet_address_parsed example_inet_iid_parsed
      example_inet_rloc_parsed
    by blast
qed

text \<open>
  C9. In every invocation that reaches the parsing (so a D-Bus connection was obtained,
  and \<^verbatim>\<open>lookup_dbus_name_from_interface\<close> left 0 in \<^verbatim>\<open>ret\<close>) and in which the
  address, the interface identifier or the locator fails to parse, the function prints
  one error line, sends nothing and returns 0, which is also what an invocation that
  prints \<^verbatim>\<open>EidCache added.\<close> returns: no failure branch assigns \<^verbatim>\<open>ret\<close>.
\<close>

theorem add_eidcache_parse_failure_returns_zero:
  assumes "parsing_reached E argv"
    and "\<not> address_parsed E (address_arg E argv) \<or> \<not> iid_parsed E (iid_arg E argv) \<or>
         \<not> rloc_parsed E (rloc_arg E argv)"
    and "EidCacheAdded \<in> set (printed (tool_cmd_add_eidcache K E' argv'))"
  shows "ret (tool_cmd_add_eidcache K E argv) = 0 \<and>
         ret (tool_cmd_add_eidcache K E' argv') = 0 \<and>
         calls (tool_cmd_add_eidcache K E argv) = [] \<and>
         (\<exists>line. printed (tool_cmd_add_eidcache K E argv) = [line] \<and>
            line \<in> {BadAddressErrno (address_arg E argv), BadAddress (address_arg E argv),
                     BadAddressData (address_arg E argv), BadIid (iid_arg E argv),
                     BadRloc (rloc_arg E argv)})"
proof -
  have r0: "fst (lookup_dbus_name E) = 0"
    using assms(1) by (simp add: parsing_reached_def)
  let ?out = "send_eidcache K E (arg_at argv 0) (address_arg E argv) (iid_arg E argv)
                (rloc_arg E argv)"
  have fail: "ret ?out = 0 \<and> calls ?out = [] \<and>
         (\<exists>line. printed ?out = [line] \<and>
            line \<in> {BadAddressErrno (address_arg E argv), BadAddress (address_arg E argv),
                     BadAddressData (address_arg E argv), BadIid (iid_arg E argv),
                     BadRloc (rloc_arg E argv)})"
    using r0 assms(2)
    by (cases "lookup_dbus_name E")
      (auto simp: send_eidcache_def parse_address_def parse_iid_def parse_rloc_def
        address_parsed_def iid_parsed_def rloc_parsed_def Let_def
        split: prod.splits sum.splits if_splits)
  have ok: "ret (tool_cmd_add_eidcache K E' argv') = 0"
    using assms(3)
    by (cases "lookup_dbus_name E'")
      (auto simp: tool_cmd_add_eidcache_def send_eidcache_def Let_def
        split: prod.splits sum.splits if_splits option.splits)
  show ?thesis
    using fail ok by (simp add: tool_cmd_reached [OF assms(1)])
qed

theorem add_eidcache_parse_failure_returns_zero_witness:
  "parsing_reached example_env example_argv_bad_iid \<and>
   \<not> iid_parsed example_env (iid_arg example_env example_argv_bad_iid) \<and>
   EidCacheAdded \<in> set (printed (tool_cmd_add_eidcache example_macros example_env example_argv)) \<and>
   ret (tool_cmd_add_eidcache example_macros example_env example_argv_bad_iid) = 0 \<and>
   ret (tool_cmd_add_eidcache example_macros example_env example_argv) = 0 \<and>
   calls (tool_cmd_add_eidcache example_macros example_env example_argv_bad_iid) = [] \<and>
   printed (tool_cmd_add_eidcache example_macros example_env example_argv_bad_iid) =
     [BadIid ''zz'']"
proof -
  have added: "EidCacheAdded \<in>
      set (printed (tool_cmd_add_eidcache example_macros example_env example_argv))"
    by (simp add: example_run)
  have "ret (tool_cmd_add_eidcache example_macros example_env example_argv_bad_iid) = 0 \<and>
        ret (tool_cmd_add_eidcache example_macros example_env example_argv) = 0 \<and>
        calls (tool_cmd_add_eidcache example_macros example_env example_argv_bad_iid) = []"
    using add_eidcache_parse_failure_returns_zero [OF example_bad_iid_reached _ added]
      example_bad_iid_not_parsed
    by blast
  then show ?thesis
    using example_bad_iid_reached example_bad_iid_not_parsed added
    by (simp add: example_bad_iid_run)
qed

text \<open>
  C10. When the three arguments parse, the locator sent is assembled big-endian from the
  two bytes of the locator buffer after parsing: it is
  \<^verbatim>\<open>rloc_bytes[0] << 8 | rloc_bytes[1]\<close>, and its value is 256 times the first byte
  plus the second byte.
\<close>

theorem add_eidcache_rloc16_big_endian:
  assumes "parsing_reached E argv"
    and "address_parsed E (address_arg E argv)"
    and "iid_parsed E (iid_arg E argv)"
    and "rloc_parsed E (rloc_arg E argv)"
  shows "\<exists>m a i r. calls (tool_cmd_add_eidcache K E argv) = [m] \<and>
           msg_args m = [a, i, UInt16 r] \<and>
           r = rloc16_of (rloc_buffer E argv) \<and>
           unat r = 256 * unat (rloc_buffer E argv ! 0) + unat (rloc_buffer E argv ! 1)"
proof -
  obtain a where a: "parse_address E (address_arg E argv) = Inr a"
    using assms(2) parse_address_Inr_iff by blast
  obtain i where i: "parse_iid E (iid_arg E argv) = Inr i"
    using assms(3) parse_iid_Inr_iff by blast
  obtain b where b: "parse_rloc E (rloc_arg E argv) = Inr b"
    using assms(4) parse_rloc_Inr_iff by blast
  have r0: "fst (lookup_dbus_name E) = 0"
    using assms(1) by (simp add: parsing_reached_def)
  have buf: "b = rloc_buffer E argv"
    using parse_rloc_Inr_buffer [OF b] by (simp add: rloc_buffer_def)
  show ?thesis
    by (simp add: tool_cmd_reached [OF assms(1)] send_eidcache_calls [OF r0 a i b]
        buf rloc16_of_unat)
qed

theorem add_eidcache_rloc16_big_endian_witness:
  "parsing_reached example_env example_argv \<and>
   address_parsed example_env (address_arg example_env example_argv) \<and>
   iid_parsed example_env (iid_arg example_env example_argv) \<and>
   rloc_parsed example_env (rloc_arg example_env example_argv) \<and>
   rloc_buffer example_env example_argv = [0xa4, 0x01] \<and>
   (\<exists>m a i. calls (tool_cmd_add_eidcache example_macros example_env example_argv) = [m] \<and>
      msg_args m = [a, i, UInt16 0xa401] \<and> unat (0xa401 :: 16 word) = 256 * 164 + 1)"
proof -
  have buf: "rloc_buffer example_env example_argv = [0xa4, 0x01]"
    by (simp add: rloc_buffer_def rloc_arg_def example_env_def example_argv_def
        example_parser_def store_bytes_def c_array_def)
  have "\<exists>m a i r. calls (tool_cmd_add_eidcache example_macros example_env example_argv) = [m] \<and>
           msg_args m = [a, i, UInt16 r] \<and>
           r = rloc16_of (rloc_buffer example_env example_argv)"
    using add_eidcache_rloc16_big_endian [OF example_reached example_address_parsed
        example_iid_parsed example_rloc_parsed, of example_macros]
    by blast
  moreover have "rloc16_of [0xa4, 0x01] = 0xa401"
    by (simp add: rloc16_of_def)
  ultimately show ?thesis
    using buf example_reached example_address_parsed example_iid_parsed example_rloc_parsed
    by auto
qed

section \<open>The Scan Task: facts about the model\<close>

text \<open>
  An event that does not end the scan leaves the Task \<open>Active\<close> and appends the
  record it carries, if any.
\<close>

lemma on_event_not_terminal:
  "\<not> terminal ev \<Longrightarrow>
     on_event ev t = Some (StillActive, t\<lparr>accumulated := accumulated t @ scan_results [ev]\<rparr>)"
  by (induction ev t rule: on_event.induct) simp_all

lemma scan_results_Cons: "scan_results (ev # evs) = scan_results [ev] @ scan_results evs"
  by (cases ev rule: is_scan_result.cases) simp_all

lemma run_events_not_terminal:
  "state t = Active \<Longrightarrow> still_scanning evs \<Longrightarrow>
     run_events evs t = Some (t\<lparr>accumulated := accumulated t @ scan_results evs\<rparr>, [])"
proof (induction evs arbitrary: t)
  case Nil
  then show ?case by simp
next
  case (Cons ev evs)
  have nt: "\<not> terminal ev" using Cons.prems(2) by (simp add: still_scanning_def)
  let ?t' = "t\<lparr>accumulated := accumulated t @ scan_results [ev]\<rparr>"
  have step: "vprocess_event ev t = Some (StillActive, ?t')"
    using Cons.prems(1) on_event_not_terminal [OF nt] by (simp add: vprocess_event_def)
  have "run_events evs ?t' = Some (?t'\<lparr>accumulated := accumulated ?t' @ scan_results evs\<rparr>, [])"
    using Cons.prems by (intro Cons.IH) (simp_all add: still_scanning_def)
  moreover have "scan_results [ev] @ scan_results evs = scan_results (ev # evs)"
    by (rule scan_results_Cons [symmetric])
  ultimately show ?case
    using step by (simp del: scan_results.simps)
qed

text \<open>Running two event sequences one after the other.\<close>

lemma run_events_append:
  "run_events (xs @ ys) t =
     (case run_events xs t of
        None \<Rightarrow> None
      | Some (t', fs) \<Rightarrow> map_option (\<lambda>(t'', gs). (t'', fs @ gs)) (run_events ys t'))"
proof (induction xs arbitrary: t)
  case Nil
  show ?case by (simp add: option.map_ident case_prod_unfold)
next
  case (Cons x xs)
  show ?case
    by (cases "vprocess_event x t")
      (auto simp: Cons.IH option.map_comp comp_def case_prod_unfold split: option.splits)
qed

lemma scan_results_filter:
  "map (\<lambda>r. InboundPropertyInserted (ScanResult r)) (scan_results evs) = filter is_scan_result evs"
  by (induction evs rule: scan_results.induct) simp_all


text \<open>The constructor, unfolded: a 32-bit mask fills four bytes of the buffer.\<close>

lemma length_channel_mask_bytes: "length (channel_mask_bytes m) = 4"
  by (simp add: channel_mask_bytes_def)

lemma SpinelNCPTaskScan_new_eq:
  "SpinelNCPTaskScan_new p i c m =
     (if m = 0 then Inl BadArgument
      else Inr \<lparr>mInstance = i, mCB = c, state = Pending,
                mChannelMaskData = channel_mask_bytes m @ replicate 28 0,
                mChannelMaskLen = 4, mChannelDelayPeriod = p,
                accumulated = [], resolved = None\<rparr>)"
  by (simp add: SpinelNCPTaskScan_new_def store_channel_mask_def length_channel_mask_bytes)

lemma example_task_new: "SpinelNCPTaskScan_new 120 0 7 0x108800 = Inr example_task"
  by (simp add: SpinelNCPTaskScan_new_eq example_task_def channel_mask_bytes_def upt_rec)


lemma example_still_scanning: "still_scanning example_events"
  by (simp add: still_scanning_def example_events_def)

lemma example_scan_results: "scan_results example_events = [[0x0b, 0xc5], [0x0f, 0xb0]]"
  by (simp add: example_events_def)

text \<open>A scan that has gone on through \<open>evs\<close>, followed by one more event.\<close>

lemma run_events_then:
  assumes "state t = Active" and "still_scanning evs"
  shows "run_events (evs @ [ev]) t =
           map_option (\<lambda>(s, t'). (t', signal_frames s))
             (on_event ev (t\<lparr>accumulated := accumulated t @ scan_results evs\<rparr>))"
  using assms
  by (simp add: run_events_append run_events_not_terminal vprocess_event_def
      option.map_comp comp_def case_prod_unfold split: option.splits)

section \<open>The Scan Task: the claims\<close>

text \<open>
  C4. For every Scan Task (a Task the constructor returned), activation emits exactly
  three outbound frames, in the order set-channel-mask, set-scan-period, begin-scan.
  While the scan goes on, the events emit no further frame and each scan-result event
  appends its record to the accumulated list, in the order of arrival: after the events
  \<open>evs\<close> the list holds the records of \<open>evs\<close>, which are the scan-result events of
  \<open>evs\<close> in their order, and one more scan-result event adds its record at the end. A
  scan-complete event then finishes the Task with \<open>Success\<close> and the list of all
  accumulated records.
\<close>

theorem scan_task_frames_results_completion:
  assumes "SpinelNCPTaskScan_new scan_period instance cb channel_mask = Inr t"
    and "still_scanning evs"
  shows "activate t =
           (t\<lparr>state := Active\<rparr>,
            [SetChannelMask (channel_mask_bytes channel_mask), SetScanPeriod scan_period,
             BeginScan]) \<and>
         run_events evs (fst (activate t)) =
           Some (t\<lparr>state := Active, accumulated := scan_results evs\<rparr>, []) \<and>
         run_events (evs @ [InboundPropertyInserted (ScanResult r)]) (fst (activate t)) =
           Some (t\<lparr>state := Active, accumulated := scan_results evs @ [r]\<rparr>, []) \<and>
         run_events (evs @ [InboundStatusFrame ScanComplete]) (fst (activate t)) =
           Some (t\<lparr>state := Finished, accumulated := scan_results evs,
                   resolved := Some (Success, RecordList (scan_results evs))\<rparr>, []) \<and>
         map (\<lambda>r. InboundPropertyInserted (ScanResult r)) (scan_results evs) =
           filter is_scan_result evs"
proof -
  have t: "t = \<lparr>mInstance = instance, mCB = cb, state = Pending,
                mChannelMaskData = channel_mask_bytes channel_mask @ replicate 28 0,
                mChannelMaskLen = 4, mChannelDelayPeriod = scan_period,
                accumulated = [], resolved = None\<rparr>"
    using assms(1) by (auto simp: SpinelNCPTaskScan_new_eq split: if_splits)
  have frames: "scan_init_frames t =
      [SetChannelMask (channel_mask_bytes channel_mask), SetScanPeriod scan_period, BeginScan]"
    by (simp add: scan_init_frames_def t length_channel_mask_bytes)
  have act: "activate t = (t\<lparr>state := Active\<rparr>, scan_init_frames t)"
    by (simp add: activate_def)
  have st: "state (t\<lparr>state := Active\<rparr>) = Active" and acc: "accumulated t = []"
    by (simp_all add: t)
  have run: "run_events evs (t\<lparr>state := Active\<rparr>) =
      Some (t\<lparr>state := Active, accumulated := scan_results evs\<rparr>, [])"
    using run_events_not_terminal [OF st assms(2)] by (simp add: acc)
  have more: "run_events (evs @ [InboundPropertyInserted (ScanResult r)]) (t\<lparr>state := Active\<rparr>) =
      Some (t\<lparr>state := Active, accumulated := scan_results evs @ [r]\<rparr>, [])"
    using run_events_then [OF st assms(2)] by (simp add: acc)
  have fin: "run_events (evs @ [InboundStatusFrame ScanComplete]) (t\<lparr>state := Active\<rparr>) =
      Some (t\<lparr>state := Finished, accumulated := scan_results evs,
              resolved := Some (Success, RecordList (scan_results evs))\<rparr>, [])"
    using run_events_then [OF st assms(2)] by (simp add: acc finish_def)
  show ?thesis
    using run more fin by (simp add: act frames scan_results_filter)
qed

theorem scan_task_frames_results_completion_witness:
  "SpinelNCPTaskScan_new 120 0 7 0x108800 = Inr example_task \<and>
   still_scanning example_events \<and>
   snd (activate example_task) =
     [SetChannelMask [0x00, 0x88, 0x10, 0x00], SetScanPeriod 120, BeginScan] \<and>
   run_events (example_events @ [InboundStatusFrame ScanComplete]) (fst (activate example_task)) =
     Some (example_task\<lparr>state := Finished, accumulated := [[0x0b, 0xc5], [0x0f, 0xb0]],
             resolved := Some (Success, RecordList [[0x0b, 0xc5], [0x0f, 0xb0]])\<rparr>, [])"
proof -
  have "channel_mask_bytes 0x108800 = [0x00, 0x88, 0x10, 0x00]"
    by (simp add: channel_mask_bytes_def upt_rec)
  then show ?thesis
    using scan_task_frames_results_completion [OF example_task_new example_still_scanning,
        of "[]"]
    by (simp add: example_task_new example_still_scanning example_scan_results activate_def)
qed

text \<open>
  C5. If the timeout fires while a Scan Task is scanning and has accumulated the records
  of the events \<open>evs\<close>, the Task finishes with status \<open>Timeout\<close> and a Result Value
  that is the list of exactly those records: as many as \<open>evs\<close> has scan-result events,
  each once, in the order of arrival.
\<close>

theorem scan_task_timeout_keeps_partial_results:
  assumes "SpinelNCPTaskScan_new scan_period instance cb channel_mask = Inr t"
    and "still_scanning evs"
  shows "run_events (evs @ [TimeoutFired]) (fst (activate t)) =
           Some (t\<lparr>state := Finished, accumulated := scan_results evs,
                   resolved := Some (Timeout, RecordList (scan_results evs))\<rparr>, []) \<and>
         map (\<lambda>r. InboundPropertyInserted (ScanResult r)) (scan_results evs) =
           filter is_scan_result evs \<and>
         length (scan_results evs) = length (filter is_scan_result evs)"
proof -
  have acc: "accumulated t = []"
    using assms(1) by (auto simp: SpinelNCPTaskScan_new_eq split: if_splits)
  have st: "state (t\<lparr>state := Active\<rparr>) = Active"
    by simp
  have "run_events (evs @ [TimeoutFired]) (t\<lparr>state := Active\<rparr>) =
      Some (t\<lparr>state := Finished, accumulated := scan_results evs,
              resolved := Some (Timeout, RecordList (scan_results evs))\<rparr>, [])"
    using run_events_then [OF st assms(2)] by (simp add: acc finish_def)
  moreover have "length (scan_results evs) = length (filter is_scan_result evs)"
    using arg_cong [OF scan_results_filter, of length evs] by simp
  ultimately show ?thesis
    by (simp add: activate_def scan_results_filter)
qed

theorem scan_task_timeout_keeps_partial_results_witness:
  "SpinelNCPTaskScan_new 120 0 7 0x108800 = Inr example_task \<and>
   still_scanning example_events \<and>
   length (filter is_scan_result example_events) = 2 \<and>
   run_events (example_events @ [TimeoutFired]) (fst (activate example_task)) =
     Some (example_task\<lparr>state := Finished, accumulated := [[0x0b, 0xc5], [0x0f, 0xb0]],
             resolved := Some (Timeout, RecordList [[0x0b, 0xc5], [0x0f, 0xb0]])\<rparr>, [])"
  using scan_task_timeout_keeps_partial_results [OF example_task_new example_still_scanning]
  by (simp add: example_task_new example_still_scanning example_scan_results)

text \<open>
  C6. For every construction attempt with a channel mask that has no bit set, the
  construction fails with \<open>BadArgument\<close>; the factory hands nothing to the Instance,
  which stays as it was, so no outbound frame is sent for the attempt.
\<close>

theorem scan_task_empty_mask_rejected:
  assumes "\<forall>n. \<not> bit channel_mask n"
  shows "SpinelNCPTaskScan_new scan_period instance cb channel_mask = Inl BadArgument \<and>
         start_scan scan_period instance cb channel_mask I = (Inl BadArgument, I) \<and>
         outbound (snd (start_scan scan_period instance cb channel_mask I)) = outbound I"
proof -
  have "channel_mask = 0"
    using assms by (intro bit_eqI) simp
  then show ?thesis
    by (simp add: start_scan_def SpinelNCPTaskScan_new_eq)
qed

theorem scan_task_empty_mask_rejected_witness:
  "(\<forall>n. \<not> bit (0 :: 32 word) n) \<and>
   SpinelNCPTaskScan_new 120 0 7 0 = Inl BadArgument \<and>
   start_scan 120 0 7 0 idle_instance = (Inl BadArgument, idle_instance) \<and>
   outbound (snd (start_scan 120 0 7 0 idle_instance)) = [] \<and>
   outbound (snd (start_scan 120 0 7 0x108800 idle_instance)) =
     [SetChannelMask [0x00, 0x88, 0x10, 0x00], SetScanPeriod 120, BeginScan]"
proof -
  have z: "\<forall>n. \<not> bit (0 :: 32 word) n" by simp
  have sent: "outbound (snd (start_scan 120 0 7 0x108800 idle_instance)) =
      [SetChannelMask [0x00, 0x88, 0x10, 0x00], SetScanPeriod 120, BeginScan]"
    by (simp add: start_scan_def example_task_new submit_def activate_def scan_init_frames_def
        idle_instance_def example_task_def)
  show ?thesis
    using scan_task_empty_mask_rejected [OF z, of 120 0 7 idle_instance] z sent
    by (simp add: idle_instance_def)
qed

end
